theory Spec2Isabelle
  imports Main
begin

section \<open>Data model of \<open>css3_completions.py\<close>\<close>

text \<open>
  A completion item is a Python tuple of strings (\<open>(label, completion)\<close>, or a
  one-element tuple such as \<open>('"UTF-8";',)\<close>); the model keeps the components in a list.
\<close>

type_synonym completion = "string list"

text \<open>The host's constant \<open>sublime.INHIBIT_WORD_COMPLETIONS\<close>.\<close>

datatype flag = INHIBIT_WORD_COMPLETIONS

text \<open>
  What a handler returns: Python \<open>None\<close> (also the implicit result of a function that
  runs off its end), a list of completions alone, or the tuple of a list and a flag.
\<close>

datatype completions_result =
    NoResult
  | ListOnly "completion list"
  | ListFlags "completion list" flag

text \<open>The only exception the module's own code can raise: an index out of range.\<close>

datatype error = IndexError

text \<open>
  The view of the host editor. The module calls two of its methods:
  \<open>view.match_selector(location, selector)\<close> and \<open>view.scope_name(location)\<close>. Both are
  the host's, so the module is modelled for every behaviour of the two.
\<close>

record view =
  match_selector :: "int \<Rightarrow> string \<Rightarrow> bool"
  scope_name :: "int \<Rightarrow> string"

text \<open>
  The static tables of the imported modules \<open>CSS3.completions.{descriptors, functions,
  properties, selectors, types}\<close> (bound to \<open>d\<close>, \<open>f\<close>, \<open>p\<close>, \<open>s\<close>, \<open>t\<close>). They are
  data the module only reads, so they are a parameter of every function below; a field
  \<open>m_name\<close> stands for \<open>m.name\<close>.
\<close>

record tables =
  d_font_face_descriptors :: "completion list"
  d_viewport_descriptors :: "completion list"
  d_counter_style_descriptors :: "completion list"
  d_color_profile_descriptors :: "completion list"
  d_at_rule_to_completions_dict :: "string \<rightharpoonup> (string \<rightharpoonup> completion list)"
  f_func_name_to_completions :: "string \<rightharpoonup> completion list"
  f_allow_word_completions :: "string set"
  p_names :: "completion list"
  p_name_to_completions :: "string \<rightharpoonup> completion list"
  p_allow_word_completions :: "string set"
  s_at_rules :: "completion list"
  s_nestable_at_rules :: "completion list"
  s_keyframes_selector :: "completion list"
  s_font_feature_types :: "completion list"
  s_page_margin_boxes :: "completion list"
  s_at_page_selectors :: "completion list"
  s_pseudo_elements :: "completion list"
  s_pseudo_classes :: "completion list"
  s_html_tags :: "completion list"
  t_var :: completion


section \<open>The Python operations the module uses\<close>

text \<open>\<open>s.startswith(p)\<close>.\<close>

fun startswith :: "string \<Rightarrow> string \<Rightarrow> bool" where
  "startswith s [] = True"
| "startswith [] (p # ps) = False"
| "startswith (c # cs) (p # ps) = (c = p \<and> startswith cs ps)"

text \<open>
  \<open>s.split(sep)\<close> for a separator of one character: the pieces between the separators,
  empty pieces kept, so the result has one more element than \<open>s\<close> has separators.
\<close>

fun split_sep :: "char \<Rightarrow> string \<Rightarrow> string list" where
  "split_sep sep [] = [[]]"
| "split_sep sep (c # cs) =
     (if c = sep then [] # split_sep sep cs
      else (case split_sep sep cs of
              [] \<Rightarrow> [[c]]
            | w # ws \<Rightarrow> (c # w) # ws))"

text \<open>
  \<open>s.split()\<close>: the maximal runs of characters that are not white space. White space
  is what \<open>str.isspace\<close> accepts among the code points below 256.
\<close>

definition isspace :: "char \<Rightarrow> bool" where
  "isspace c \<longleftrightarrow>
     c \<in> set [CHR 0x09, CHR 0x0A, CHR 0x0B, CHR 0x0C, CHR 0x0D, CHR 0x1C, CHR 0x1D,
              CHR 0x1E, CHR 0x1F, CHR 0x20, CHR 0x85, CHR 0xA0]"

fun split_words :: "string \<Rightarrow> string \<Rightarrow> string list" where
  "split_words w [] = (if w = [] then [] else [w])"
| "split_words w (c # cs) =
     (if isspace c then (if w = [] then split_words [] cs else w # split_words [] cs)
      else split_words (w @ [c]) cs)"

definition split_ws :: "string \<Rightarrow> string list" where
  "split_ws s = split_words [] s"

text \<open>
  \<open>xs[i]\<close>: a negative index counts from the end, and an index outside the list raises
  \<open>IndexError\<close>.
\<close>

definition subscript :: "'a list \<Rightarrow> int \<Rightarrow> error + 'a" where
  "subscript xs i =
     (if 0 \<le> i \<and> i < int (length xs) then Inr (xs ! nat i)
      else if i < 0 \<and> - int (length xs) \<le> i then Inr (xs ! nat (int (length xs) + i))
      else Inl IndexError)"

text \<open>\<open>m.get(k, default)\<close>.\<close>

definition dict_get :: "('k \<rightharpoonup> 'v) \<Rightarrow> 'k \<Rightarrow> 'v \<Rightarrow> 'v" where
  "dict_get m k dflt = (case m k of None \<Rightarrow> dflt | Some v \<Rightarrow> v)"


section \<open>The module\<close>

subsection \<open>\<open>get_name\<close>\<close>

definition name_index :: int where
  "name_index = - 2"

text \<open>The loop \<open>for scope in reversed(scopes)\<close>, over the list already reversed.\<close>

fun get_name_loop :: "string list \<Rightarrow> string \<Rightarrow> error + string" where
  "get_name_loop [] prefix = Inr []"
| "get_name_loop (scope # rest) prefix =
     (if startswith scope prefix then subscript (split_sep CHR ''.'' scope) name_index
      else get_name_loop rest prefix)"

definition get_name :: "string list \<Rightarrow> string \<Rightarrow> error + string" where
  "get_name scopes prefix = get_name_loop (rev scopes) prefix"

subsection \<open>The three lookups\<close>

definition get_property_values :: "tables \<Rightarrow> string list \<Rightarrow> error + completions_result" where
  "get_property_values T current_scopes =
     (case get_name current_scopes ''meta.property-value-pair.'' of
        Inl e \<Rightarrow> Inl e
      | Inr property_name \<Rightarrow>
          (let completions = dict_get (p_name_to_completions T) property_name [] @ [t_var T]
           in if property_name \<noteq> [] \<and> property_name \<in> p_allow_word_completions T
              then Inr (ListOnly completions)
              else Inr (ListFlags completions INHIBIT_WORD_COMPLETIONS)))"

definition get_descriptors ::
  "tables \<Rightarrow> string list \<Rightarrow> string \<Rightarrow> error + completions_result" where
  "get_descriptors T current_scopes descriptors_for =
     (case get_name current_scopes (''meta.descriptor.'' @ descriptors_for) of
        Inl e \<Rightarrow> Inl e
      | Inr descriptor_name \<Rightarrow>
          (let completions_dict =
                 dict_get (d_at_rule_to_completions_dict T) descriptors_for Map.empty;
               completions = dict_get completions_dict descriptor_name [] @ [t_var T]
           in if descriptor_name \<noteq> [] \<and> descriptor_name \<in> f_allow_word_completions T
              then Inr (ListOnly completions)
              else Inr (ListFlags completions INHIBIT_WORD_COMPLETIONS)))"

definition get_functions :: "tables \<Rightarrow> string list \<Rightarrow> error + completions_result" where
  "get_functions T current_scopes =
     (case get_name current_scopes ''meta.function.'' of
        Inl e \<Rightarrow> Inl e
      | Inr func_name \<Rightarrow>
          (let completions = dict_get (f_func_name_to_completions T) func_name [] @ [t_var T]
           in if func_name \<noteq> [] \<and> func_name \<in> f_allow_word_completions T
              then Inr (ListOnly completions)
              else Inr (ListFlags completions INHIBIT_WORD_COMPLETIONS)))"

subsection \<open>Scope predicates\<close>

definition get_current_scopes :: "view \<Rightarrow> int \<Rightarrow> string list" where
  "get_current_scopes v location = split_ws (scope_name v location)"

definition scopes_that_forbid_nested_at_rules :: string where
  "scopes_that_forbid_nested_at_rules =
     ''meta.property-list.css, '' @
     ''meta.at-rule.font-face.block.css, '' @
     ''meta.at-rule.keyframes.block.css, '' @
     ''meta.at-rule.font-feature-values.block.css, '' @
     ''meta.at-rule.viewport.block.css, '' @
     ''meta.at-rule.color-profile.block.css, '' @
     ''meta.at-rule.counter-style.block.css, '' @
     ''meta.at-rule.page.block.css''"

definition property_name_scope :: "view \<Rightarrow> int \<Rightarrow> bool" where
  "property_name_scope v location \<longleftrightarrow>
     match_selector v location ''source.css meta.property-list.css -meta.property-value-pair'' \<or>
     match_selector v location ''source.css meta.page-margin-box.css -meta.property-value-pair''"

definition should_offer_at_rule_completions :: "view \<Rightarrow> int \<Rightarrow> bool" where
  "should_offer_at_rule_completions v location =
     (if \<not> match_selector v location
              ''meta.at-rule.media.block.css, meta.at-rule.supports.block.css''
      then False
      else \<not> match_selector v location scopes_that_forbid_nested_at_rules)"

subsection \<open>The two dispatchers\<close>

definition handle_selector_completions :: "tables \<Rightarrow> view \<Rightarrow> int \<Rightarrow> completions_result" where
  "handle_selector_completions T v location =
     (if match_selector v (location - 1) ''punctuation.definition.entity.pseudo-element.css''
      then ListFlags (s_pseudo_elements T) INHIBIT_WORD_COMPLETIONS
      else if match_selector v (location - 1) ''punctuation.definition.entity.pseudo-class.css''
      then ListFlags (s_pseudo_classes T) INHIBIT_WORD_COMPLETIONS
      else if match_selector v location ''source.css -entity.other.attribute-name.''
      then ListOnly (s_html_tags T)
      else NoResult)"

text \<open>The one literal item of the \<open>@charset\<close> branch, \<open>('"UTF-8";',)\<close>.\<close>

definition charset_item :: completion where
  "charset_item = [CHR 0x22 # ''UTF-8'' @ [CHR 0x22, CHR '';'']]"

definition handle_completions_inside_at_rules ::
  "tables \<Rightarrow> view \<Rightarrow> int \<Rightarrow> error + completions_result" where
  "handle_completions_inside_at_rules T v location =
     (let current_scopes = get_current_scopes v location in
      if should_offer_at_rule_completions v location
      then Inr (ListFlags (s_nestable_at_rules T) INHIBIT_WORD_COMPLETIONS)
      else if match_selector v location
                ''meta.at-rule.keyframes.block.css -meta.keyframes-declaration-list.css''
      then Inr (ListFlags (s_keyframes_selector T) INHIBIT_WORD_COMPLETIONS)
      else if match_selector v location ''meta.at-rule.font-face.block.css''
      then (if match_selector v location ''source.css -meta.descriptor.font-face''
            then Inr (ListFlags (d_font_face_descriptors T) INHIBIT_WORD_COMPLETIONS)
            else get_descriptors T current_scopes ''font-face'')
      else if match_selector v location ''meta.at-rule.font-feature-values.block.css''
      then (if match_selector v location ''-meta.font-feature-type-block.css''
            then Inr (ListFlags (s_font_feature_types T) INHIBIT_WORD_COMPLETIONS)
            else Inr (ListOnly []))
      else if match_selector v location ''meta.at-rule.viewport.block.css''
      then (if match_selector v location ''source.css -meta.descriptor.viewport''
            then Inr (ListFlags (d_viewport_descriptors T) INHIBIT_WORD_COMPLETIONS)
            else get_descriptors T current_scopes ''viewport'')
      else if match_selector v location
                ''meta.at-rule.page.block.css -meta.page-margin-box.css''
      then Inr (ListFlags (s_page_margin_boxes T) INHIBIT_WORD_COMPLETIONS)
      else if match_selector v location
                ''meta.at-rule.page.css -meta.at-rule.page.block.css''
      then Inr (ListOnly (s_at_page_selectors T))
      else if match_selector v location ''meta.at-rule.charset.css''
      then Inr (ListFlags [charset_item] INHIBIT_WORD_COMPLETIONS)
      else if match_selector v location ''meta.at-rule.counter-style.block.css''
      then (if match_selector v location ''-meta.descriptor.counter-style''
            then Inr (ListFlags (d_counter_style_descriptors T) INHIBIT_WORD_COMPLETIONS)
            else get_descriptors T current_scopes ''counter-style'')
      else if match_selector v location ''meta.at-rule.color-profile.block.css''
      then (if match_selector v location ''-meta.descriptor.color-profile''
            then Inr (ListFlags (d_color_profile_descriptors T) INHIBIT_WORD_COMPLETIONS)
            else get_descriptors T current_scopes ''color-profile'')
      else Inr NoResult)"

subsection \<open>\<open>CSS3Completions.on_query_completions\<close>\<close>

text \<open>
  The scope tests of the six branches of the cascade at the start position of the
  prefix, in the order of the source.
\<close>

definition inside_functions :: "view \<Rightarrow> int \<Rightarrow> bool" where
  "inside_functions v start \<longleftrightarrow> match_selector v start ''source.css meta.function''"

definition outside_at_rules :: "view \<Rightarrow> int \<Rightarrow> bool" where
  "outside_at_rules v start \<longleftrightarrow>
     match_selector v start ''source.css -meta.at-rule -meta.property-list.css'' \<and>
     match_selector v (start - 1) ''punctuation.definition.keyword.css''"

definition inside_at_rules :: "view \<Rightarrow> int \<Rightarrow> bool" where
  "inside_at_rules v start \<longleftrightarrow> match_selector v start ''source.css meta.at-rule''"

definition property_values :: "view \<Rightarrow> int \<Rightarrow> bool" where
  "property_values v start \<longleftrightarrow> match_selector v start ''source.css meta.property-value-pair''"

definition selectors :: "view \<Rightarrow> int \<Rightarrow> bool" where
  "selectors v start \<longleftrightarrow> match_selector v start ''meta.selector.css''"

definition on_query_completions ::
  "tables \<Rightarrow> view \<Rightarrow> string \<Rightarrow> int list \<Rightarrow> error + completions_result" where
  "on_query_completions T v prefix locations =
     (if length locations > 1 then Inr (ListFlags [] INHIBIT_WORD_COMPLETIONS)
      else
        (case subscript locations 0 of
           Inl e \<Rightarrow> Inl e
         | Inr location \<Rightarrow>
             if match_selector v location ''comment.block.css'' then Inr (ListOnly [])
             else
               (let start = location - int (length prefix);
                    current_scopes = get_current_scopes v start
                in if inside_functions v start then get_functions T current_scopes
                   else if outside_at_rules v start
                   then Inr (ListFlags (s_at_rules T) INHIBIT_WORD_COMPLETIONS)
                   else if inside_at_rules v start
                   then handle_completions_inside_at_rules T v start
                   else if property_name_scope v start
                   then Inr (ListFlags (p_names T) INHIBIT_WORD_COMPLETIONS)
                   else if property_values v start
                   then get_property_values T current_scopes
                   else if selectors v start
                   then Inr (handle_selector_completions T v start)
                   else Inr NoResult)))"


section \<open>Reference formulations\<close>

text \<open>
  The lookup of the design document (section 4.3), in the document's words: extract the
  name, look the inner table up (an empty list when the name is absent), append the
  generic placeholder, and suppress word completions unless the name is non-empty and
  in the family's own set of names that allow free text. Its parameters are the
  family's set \<open>allow\<close>, the family's inner table \<open>inner\<close>, the placeholder and the name
  prefix.
\<close>

definition lookup_by_family ::
  "string set \<Rightarrow> (string \<rightharpoonup> completion list) \<Rightarrow> completion \<Rightarrow> string list \<Rightarrow> string \<Rightarrow>
   error + completions_result" where
  "lookup_by_family allow inner placeholder scopes name_prefix =
     (case get_name scopes name_prefix of
        Inl e \<Rightarrow> Inl e
      | Inr name \<Rightarrow>
          if name \<noteq> [] \<and> name \<in> allow
          then Inr (ListOnly (dict_get inner name [] @ [placeholder]))
          else Inr (ListFlags (dict_get inner name [] @ [placeholder])
                      INHIBIT_WORD_COMPLETIONS))"

text \<open>The list of completions a result carries, if it carries one.\<close>

fun returned_list :: "error + completions_result \<Rightarrow> completion list option" where
  "returned_list (Inr (ListOnly xs)) = Some xs"
| "returned_list (Inr (ListFlags xs fl)) = Some xs"
| "returned_list (Inr NoResult) = None"
| "returned_list (Inl e) = None"

text \<open>
  The cascade of \<open>on_query_completions\<close> as the ordered list of its six branches, each
  the pair of its scope test and of what its handler returns (design note of section 9),
  and the evaluation of such a list: the handler of the first pair whose test holds.
\<close>

definition cascade ::
  "tables \<Rightarrow> view \<Rightarrow> int \<Rightarrow> (bool \<times> (error + completions_result)) list" where
  "cascade T v start =
     [(inside_functions v start, get_functions T (get_current_scopes v start)),
      (outside_at_rules v start, Inr (ListFlags (s_at_rules T) INHIBIT_WORD_COMPLETIONS)),
      (inside_at_rules v start, handle_completions_inside_at_rules T v start),
      (property_name_scope v start, Inr (ListFlags (p_names T) INHIBIT_WORD_COMPLETIONS)),
      (property_values v start, get_property_values T (get_current_scopes v start)),
      (selectors v start, Inr (handle_selector_completions T v start))]"

fun first_match :: "(bool \<times> 'a) list \<Rightarrow> 'a \<Rightarrow> 'a" where
  "first_match [] none = none"
| "first_match ((test, handler) # rest) none =
     (if test then handler else first_match rest none)"

text \<open>
  A host reads a comma in a selector as an alternative: a position matches \<open>a, b\<close> when
  it matches \<open>a\<close> or matches \<open>b\<close>.
\<close>

definition comma_or :: "view \<Rightarrow> bool" where
  "comma_or v \<longleftrightarrow>
     (\<forall>pos a b. match_selector v pos (a @ '', '' @ b) =
                  (match_selector v pos a \<or> match_selector v pos b))"


section \<open>A host for concrete inputs\<close>

text \<open>
  Modelled from the spec: the host's \<open>matchesSelector(offset, selectorExpression)\<close>, which
  is the editor's and not part of the repository. Section 6 describes it as testing
  whether the stack of scope labels at the offset satisfies a boolean expression over
  label prefixes: comma-separated alternatives, each a conjunction of terms, a term \<open>x\<close>
  asking for a label that starts with \<open>x\<close> and a term \<open>-x\<close> for no such label. It is used
  only to build the views of the concrete inputs below.
\<close>

definition has_scope :: "string list \<Rightarrow> string \<Rightarrow> bool" where
  "has_scope labels x = list_ex (\<lambda>label. startswith label x) labels"

fun term_matches :: "string list \<Rightarrow> string \<Rightarrow> bool" where
  "term_matches labels [] = True"
| "term_matches labels (c # cs) =
     (if c = CHR ''-'' then \<not> has_scope labels cs else has_scope labels (c # cs))"

definition alternative_matches :: "string list \<Rightarrow> string \<Rightarrow> bool" where
  "alternative_matches labels alt = list_all (term_matches labels) (split_ws alt)"

definition selector_matches :: "string list \<Rightarrow> string \<Rightarrow> bool" where
  "selector_matches labels sel =
     list_ex (alternative_matches labels) (split_sep CHR '','' sel)"

text \<open>The view of a document whose scope name at each position is given.\<close>

definition host_view :: "(int \<Rightarrow> string) \<Rightarrow> view" where
  "host_view scope_at =
     \<lparr>match_selector = (\<lambda>pos sel. selector_matches (split_ws (scope_at pos)) sel),
      scope_name = scope_at\<rparr>"


section \<open>Concrete inputs\<close>

text \<open>Small tables in the shape of the package's.\<close>

definition example_tables :: tables where
  "example_tables =
     \<lparr>d_font_face_descriptors = [[''font-family''], [''src'']],
      d_viewport_descriptors = [[''zoom'']],
      d_counter_style_descriptors = [[''system''], [''symbols'']],
      d_color_profile_descriptors = [[''rendering-intent'']],
      d_at_rule_to_completions_dict =
        [''counter-style'' \<mapsto> [''system'' \<mapsto> [[''cyclic''], [''numeric'']]],
         ''font-face'' \<mapsto> [''font-display'' \<mapsto> [[''swap'']]]],
      f_func_name_to_completions =
        [''rgb'' \<mapsto> [[''0, 0, 0'']], ''counter'' \<mapsto> [[''decimal'']]],
      f_allow_word_completions = {''counter'', ''counters''},
      p_names = [[''color''], [''animation-name'']],
      p_name_to_completions =
        [''color'' \<mapsto> [[''red''], [''blue'']], ''animation-name'' \<mapsto> [[''none'']]],
      p_allow_word_completions = {''animation-name''},
      s_at_rules = [[''@media''], [''@font-face'']],
      s_nestable_at_rules = [[''@media''], [''@supports'']],
      s_keyframes_selector = [[''from''], [''to'']],
      s_font_feature_types = [[''@swash'']],
      s_page_margin_boxes = [[''@top-right'']],
      s_at_page_selectors = [['':left'']],
      s_pseudo_elements = [[''after''], [''before'']],
      s_pseudo_classes = [[''hover'']],
      s_html_tags = [[''a''], [''div'']],
      t_var = [''var()'', ''var(--name)'']\<rparr>"

text \<open>
  A function argument inside a property value, as in \<open>color: rgb(|)\<close>: the scope
  stack holds the property value pair and the function.
\<close>

definition function_in_value :: "int \<Rightarrow> string" where
  "function_in_value pos =
     ''source.css meta.property-list.css meta.property-value-pair.color.css meta.function.rgb.css''"

text \<open>
  A property list whose positions below 10 lie in a comment, and whose positions from
  10 on do not.
\<close>

definition comment_then_code :: "int \<Rightarrow> string" where
  "comment_then_code pos =
     (if pos < 10 then ''source.css meta.property-list.css comment.block.css''
      else ''source.css meta.property-list.css'')"

text \<open>A selector in a document that is not CSS source.\<close>

definition selector_outside_css :: "int \<Rightarrow> string" where
  "selector_outside_css pos = ''source.scss meta.selector.css''"

text \<open>A CSS selector with the colons of \<open>::\<close> at positions 3 and 4.\<close>

definition selector_after_colons :: "int \<Rightarrow> string" where
  "selector_after_colons pos =
     (if pos = 3 \<or> pos = 4
      then ''source.css meta.selector.css punctuation.definition.entity.pseudo-element.css''
      else ''source.css meta.selector.css'')"

text \<open>The body of an \<open>@media\<close> block, and a rule's property list inside one.\<close>

definition media_block :: "int \<Rightarrow> string" where
  "media_block pos = ''source.css meta.at-rule.media.block.css''"

definition rule_in_media_block :: "int \<Rightarrow> string" where
  "rule_in_media_block pos =
     ''source.css meta.at-rule.media.block.css meta.property-list.css''"

text \<open>An \<open>@keyframes\<close> block nested in an \<open>@supports\<close> block, outside its declarations.\<close>

definition keyframes_in_supports :: "int \<Rightarrow> string" where
  "keyframes_in_supports pos =
     ''source.css meta.at-rule.supports.block.css meta.at-rule.keyframes.block.css''"

text \<open>A position no branch of the cascade claims.\<close>

definition plain_text :: "int \<Rightarrow> string" where
  "plain_text pos = ''text.plain''"

section \<open>Facts about the Python operations\<close>

lemmas host_defs =
  host_view_def selector_matches_def alternative_matches_def has_scope_def split_ws_def
  isspace_def get_current_scopes_def

lemmas branch_defs =
  inside_functions_def outside_at_rules_def inside_at_rules_def property_name_scope_def
  property_values_def selectors_def

lemma startswith_append: "startswith s p \<longleftrightarrow> (\<exists>t. s = p @ t)"
  by (induction s p rule: startswith.induct) auto

lemma split_sep_not_Nil: "split_sep sep s \<noteq> []"
  by (induction s) (auto split: list.splits)

lemma length_split_sep: "length (split_sep sep s) = Suc (length (filter (\<lambda>c. c = sep) s))"
  by (induction s) (auto split: list.splits simp: split_sep_not_Nil)

lemma split_sep_two: "sep \<in> set s \<Longrightarrow> 2 \<le> length (split_sep sep s)"
  by (simp add: length_split_sep filter_empty_conv Suc_le_eq)

lemma subscript_name_index:
  "2 \<le> length xs \<Longrightarrow> subscript xs name_index = Inr (xs ! (length xs - 2))"
  by (auto simp: subscript_def name_index_def nat_diff_distrib' intro: arg_cong)

lemma subscript_name_index_short:
  "length xs < 2 \<Longrightarrow> subscript xs name_index = Inl IndexError"
  by (auto simp: subscript_def name_index_def)

lemma subscript_two_last: "subscript (segs @ [name, final]) name_index = Inr name"
  by (simp add: subscript_name_index nth_append)

lemma two_last_segments:
  assumes "2 \<le> length xs"
  shows "\<exists>segs name final. xs = segs @ [name, final]"
proof -
  from assms obtain ys final where xs: "xs = ys @ [final]"
    by (cases xs rule: rev_cases) auto
  with assms obtain segs name where "ys = segs @ [name]"
    by (cases ys rule: rev_cases) auto
  with xs show ?thesis by auto
qed


section \<open>Name extraction\<close>

lemma get_name_loop_none:
  "\<forall>t \<in> set xs. \<not> startswith t prefix \<Longrightarrow> get_name_loop xs prefix = Inr []"
  by (induction xs) auto

lemma get_name_loop_first:
  "\<forall>t \<in> set xs. \<not> startswith t prefix \<Longrightarrow> startswith s prefix \<Longrightarrow>
   get_name_loop (xs @ s # ys) prefix = subscript (split_sep CHR ''.'' s) name_index"
  by (induction xs) auto

lemma get_name_innermost:
  "startswith s prefix \<Longrightarrow> \<forall>t \<in> set post. \<not> startswith t prefix \<Longrightarrow>
   get_name (pre @ s # post) prefix = subscript (split_sep CHR ''.'' s) name_index"
  using get_name_loop_first [of "rev post" prefix s "rev pre"]
  by (simp add: get_name_def)

lemma startswith_dot:
  "startswith s prefix \<Longrightarrow> CHR ''.'' \<in> set prefix \<Longrightarrow> CHR ''.'' \<in> set s"
  by (auto simp: startswith_append)

text \<open>
  The indexing of \<open>get_name\<close> can fail: a matching label without a dot has one segment
  only. A prefix that holds a dot excludes it.
\<close>

lemma get_name_undotted_label: "get_name [''css''] ''c'' = Inl IndexError"
  by (simp add: get_name_def subscript_def name_index_def)

lemma get_name_loop_total:
  "CHR ''.'' \<in> set prefix \<Longrightarrow> \<exists>name. get_name_loop xs prefix = Inr name"
  by (induction xs) (auto simp: subscript_name_index split_sep_two startswith_dot)

lemma get_name_total:
  "CHR ''.'' \<in> set prefix \<Longrightarrow> \<exists>name. get_name scopes prefix = Inr name"
  by (simp add: get_name_def get_name_loop_total)

text \<open>
  Claim C3. \<open>get_name\<close> scans the scope labels from the innermost (last) to the outermost
  (first). When no label starts with the prefix it returns the empty string. Otherwise
  the innermost label \<open>s\<close> that starts with the prefix decides, whatever the labels \<open>pre\<close>
  outside it are: the result is the segment \<open>name\<close> just before the final segment of
  \<open>s\<close>, where the segments of \<open>s\<close> are its pieces between the dots. A label that starts
  with a dotted prefix always has these two last segments.
\<close>

theorem get_name_rightmost:
  "((\<forall>t \<in> set scopes. \<not> startswith t prefix) \<longrightarrow> get_name scopes prefix = Inr []) \<and>
   (startswith s prefix \<and> (\<forall>t \<in> set post. \<not> startswith t prefix) \<and>
    split_sep CHR ''.'' s = segs @ [name, final] \<longrightarrow>
      get_name (pre @ s # post) prefix = Inr name) \<and>
   (startswith s prefix \<and> CHR ''.'' \<in> set prefix \<longrightarrow>
      (\<exists>segs name final. split_sep CHR ''.'' s = segs @ [name, final]))"
proof (intro conjI impI)
  assume "\<forall>t \<in> set scopes. \<not> startswith t prefix"
  then show "get_name scopes prefix = Inr []"
    by (simp add: get_name_def get_name_loop_none)
next
  assume "startswith s prefix \<and> (\<forall>t \<in> set post. \<not> startswith t prefix) \<and>
    split_sep CHR ''.'' s = segs @ [name, final]"
  then show "get_name (pre @ s # post) prefix = Inr name"
    by (simp add: get_name_innermost subscript_two_last)
next
  assume "startswith s prefix \<and> CHR ''.'' \<in> set prefix"
  then have "CHR ''.'' \<in> set s"
    by (blast intro: startswith_dot)
  then have "2 \<le> length (split_sep CHR ''.'' s)"
    by (rule split_sep_two)
  then show "\<exists>segs name final. split_sep CHR ''.'' s = segs @ [name, final]"
    by (rule two_last_segments)
qed

text \<open>
  The example of the design document: of the labels \<open>a.b.css\<close> and \<open>a.b.x.css\<close> the
  last one decides for the prefix \<open>a.b\<close>; and the third example of the docstring.
\<close>

theorem get_name_rightmost_witness:
  "startswith ''a.b.x.css'' ''a.b'' \<and>
   split_sep CHR ''.'' ''a.b.x.css'' = [''a'', ''b''] @ [''x'', ''css''] \<and>
   get_name ([''a.b.css''] @ ''a.b.x.css'' # []) ''a.b'' = Inr ''x'' \<and>
   get_name [''source.css'', ''meta.function.baz.css''] ''meta.descriptor.color-profile'' = Inr []"
  using get_name_rightmost [of "[''source.css'', ''meta.function.baz.css'']"
      "''meta.descriptor.color-profile''" "''a.b.x.css''" "[]" "[''a'', ''b'']" "''x''" "''css''"
      "[''a.b.css'']"]
    get_name_rightmost [of "[]" "''a.b''" "''a.b.x.css''" "[]" "[''a'', ''b'']" "''x''" "''css''"
      "[''a.b.css'']"]
  by simp

section \<open>The three lookups\<close>

lemma dot_in_prefixes:
  "CHR ''.'' \<in> set ''meta.function.''"
  "CHR ''.'' \<in> set ''meta.property-value-pair.''"
  "CHR ''.'' \<in> set (''meta.descriptor.'' @ descriptors_for)"
  by simp_all

text \<open>
  The function lookup and the property value lookup are the lookup of the design
  document with their own family's set. The descriptor lookup is that lookup with the
  set of the function family, \<open>f.allow_word_completions\<close>.
\<close>

lemma get_functions_by_family:
  "get_functions T scopes =
     lookup_by_family (f_allow_word_completions T) (f_func_name_to_completions T) (t_var T)
       scopes ''meta.function.''"
  by (simp add: get_functions_def lookup_by_family_def Let_def split: sum.splits)

lemma get_property_values_by_family:
  "get_property_values T scopes =
     lookup_by_family (p_allow_word_completions T) (p_name_to_completions T) (t_var T)
       scopes ''meta.property-value-pair.''"
  by (simp add: get_property_values_def lookup_by_family_def Let_def split: sum.splits)

lemma get_descriptors_by_function_set:
  "get_descriptors T scopes descriptors_for =
     lookup_by_family (f_allow_word_completions T)
       (dict_get (d_at_rule_to_completions_dict T) descriptors_for Map.empty) (t_var T)
       scopes (''meta.descriptor.'' @ descriptors_for)"
  by (simp add: get_descriptors_def lookup_by_family_def Let_def split: sum.splits)

lemma lookup_by_family_list:
  "get_name scopes name_prefix = Inr name \<Longrightarrow>
   returned_list (lookup_by_family allow inner placeholder scopes name_prefix) =
     Some (dict_get inner name [] @ [placeholder])"
  by (simp add: lookup_by_family_def)

lemma lookup_by_family_total:
  "CHR ''.'' \<in> set name_prefix \<Longrightarrow>
   \<exists>r. lookup_by_family allow inner placeholder scopes name_prefix = Inr r"
  using get_name_total [of name_prefix scopes]
  by (auto simp: lookup_by_family_def)

lemma dict_get_absent: "m k = None \<or> m k = Some dflt \<Longrightarrow> dict_get m k dflt = dflt"
  by (auto simp: dict_get_def)

lemmas eval_defs =
  get_name_def subscript_def name_index_def dict_get_def example_tables_def

text \<open>
  Claim C4. Each of the three lookups returns the list of its table for the extracted
  name (the empty list when the name is not a key) with the one placeholder \<open>t.var\<close>
  appended. In particular the result is the placeholder alone when the name is absent
  from the table or its list is empty.
\<close>

theorem lookups_append_var:
  "(\<exists>name. get_name scopes ''meta.function.'' = Inr name \<and>
      returned_list (get_functions T scopes) =
        Some (dict_get (f_func_name_to_completions T) name [] @ [t_var T])) \<and>
   (\<exists>name. get_name scopes (''meta.descriptor.'' @ descriptors_for) = Inr name \<and>
      returned_list (get_descriptors T scopes descriptors_for) =
        Some (dict_get (dict_get (d_at_rule_to_completions_dict T) descriptors_for Map.empty)
                name [] @ [t_var T])) \<and>
   (\<exists>name. get_name scopes ''meta.property-value-pair.'' = Inr name \<and>
      returned_list (get_property_values T scopes) =
        Some (dict_get (p_name_to_completions T) name [] @ [t_var T])) \<and>
   (get_name scopes ''meta.function.'' = Inr name \<and>
    (f_func_name_to_completions T name = None \<or> f_func_name_to_completions T name = Some [])
      \<longrightarrow> returned_list (get_functions T scopes) = Some [t_var T]) \<and>
   (get_name scopes (''meta.descriptor.'' @ descriptors_for) = Inr name \<and>
    (d_at_rule_to_completions_dict T descriptors_for = None \<or>
     (\<exists>inner. d_at_rule_to_completions_dict T descriptors_for = Some inner \<and>
        (inner name = None \<or> inner name = Some [])))
      \<longrightarrow> returned_list (get_descriptors T scopes descriptors_for) = Some [t_var T]) \<and>
   (get_name scopes ''meta.property-value-pair.'' = Inr name \<and>
    (p_name_to_completions T name = None \<or> p_name_to_completions T name = Some [])
      \<longrightarrow> returned_list (get_property_values T scopes) = Some [t_var T])"
proof (intro conjI impI)
  show "\<exists>name. get_name scopes ''meta.function.'' = Inr name \<and>
      returned_list (get_functions T scopes) =
        Some (dict_get (f_func_name_to_completions T) name [] @ [t_var T])"
    using get_name_total [OF dot_in_prefixes(1), of scopes]
    by (auto simp: get_functions_by_family lookup_by_family_list)
  show "\<exists>name. get_name scopes (''meta.descriptor.'' @ descriptors_for) = Inr name \<and>
      returned_list (get_descriptors T scopes descriptors_for) =
        Some (dict_get (dict_get (d_at_rule_to_completions_dict T) descriptors_for Map.empty)
                name [] @ [t_var T])"
    using get_name_total [OF dot_in_prefixes(3), of scopes descriptors_for]
    by (auto simp: get_descriptors_by_function_set lookup_by_family_list)
  show "\<exists>name. get_name scopes ''meta.property-value-pair.'' = Inr name \<and>
      returned_list (get_property_values T scopes) =
        Some (dict_get (p_name_to_completions T) name [] @ [t_var T])"
    using get_name_total [OF dot_in_prefixes(2), of scopes]
    by (auto simp: get_property_values_by_family lookup_by_family_list)
next
  assume "get_name scopes ''meta.function.'' = Inr name \<and>
    (f_func_name_to_completions T name = None \<or> f_func_name_to_completions T name = Some [])"
  then show "returned_list (get_functions T scopes) = Some [t_var T]"
    by (simp add: get_functions_by_family lookup_by_family_list dict_get_absent)
next
  assume a: "get_name scopes (''meta.descriptor.'' @ descriptors_for) = Inr name \<and>
    (d_at_rule_to_completions_dict T descriptors_for = None \<or>
     (\<exists>inner. d_at_rule_to_completions_dict T descriptors_for = Some inner \<and>
        (inner name = None \<or> inner name = Some [])))"
  then have "dict_get (dict_get (d_at_rule_to_completions_dict T) descriptors_for Map.empty)
      name [] = []"
    by (auto simp: dict_get_def)
  with a show "returned_list (get_descriptors T scopes descriptors_for) = Some [t_var T]"
    by (simp add: get_descriptors_by_function_set lookup_by_family_list)
next
  assume "get_name scopes ''meta.property-value-pair.'' = Inr name \<and>
    (p_name_to_completions T name = None \<or> p_name_to_completions T name = Some [])"
  then show "returned_list (get_property_values T scopes) = Some [t_var T]"
    by (simp add: get_property_values_by_family lookup_by_family_list dict_get_absent)
qed

text \<open>
  Inside \<open>calc(|)\<close>: the function \<open>calc\<close>, the descriptor family \<open>viewport\<close> and the
  empty property name are no keys of the example tables, and each lookup returns the
  placeholder alone.
\<close>

theorem lookups_append_var_witness:
  "get_name [''source.css'', ''meta.function.calc.css''] ''meta.function.'' = Inr ''calc'' \<and>
   f_func_name_to_completions example_tables ''calc'' = None \<and>
   returned_list (get_functions example_tables [''source.css'', ''meta.function.calc.css'']) =
     Some [t_var example_tables] \<and>
   get_name [''source.css'', ''meta.function.calc.css''] (''meta.descriptor.'' @ ''viewport'')
     = Inr [] \<and>
   d_at_rule_to_completions_dict example_tables ''viewport'' = None \<and>
   returned_list (get_descriptors example_tables [''source.css'', ''meta.function.calc.css'']
     ''viewport'') = Some [t_var example_tables] \<and>
   get_name [''source.css'', ''meta.function.calc.css''] ''meta.property-value-pair.'' = Inr [] \<and>
   p_name_to_completions example_tables [] = None \<and>
   returned_list (get_property_values example_tables [''source.css'', ''meta.function.calc.css''])
     = Some [t_var example_tables]"
  using lookups_append_var [of "[''source.css'', ''meta.function.calc.css'']" example_tables
      "''viewport''" "''calc''"]
    lookups_append_var [of "[''source.css'', ''meta.function.calc.css'']" example_tables
      "''viewport''" "[]"]
  by (simp add: eval_defs)

text \<open>
  Claim C1, which says that each lookup leaves word completions on exactly when the
  extracted name is non-empty and in the set of the lookup's own family. The descriptor
  lookup does not: \<open>get_descriptors\<close> tests the name against \<open>f.allow_word_completions\<close>,
  the set of function names. Inside the \<open>system\<close> descriptor of \<open>@counter-style\<close>, with
  the function set of the example tables (\<open>counter\<close>, \<open>counters\<close>), it suppresses word
  completions, although the lookup of the design document with a descriptor set that
  holds \<open>system\<close> does not; and it stops suppressing them once \<open>system\<close> is put into the
  set of function names, nothing else changed.
\<close>

theorem get_descriptors_consults_function_set:
  "get_descriptors example_tables
     [''source.css'', ''meta.at-rule.counter-style.block.css'',
      ''meta.descriptor.counter-style.system.css''] ''counter-style'' =
     Inr (ListFlags [[''cyclic''], [''numeric''], t_var example_tables]
            INHIBIT_WORD_COMPLETIONS) \<and>
   lookup_by_family {''system''}
     (dict_get (d_at_rule_to_completions_dict example_tables) ''counter-style'' Map.empty)
     (t_var example_tables)
     [''source.css'', ''meta.at-rule.counter-style.block.css'',
      ''meta.descriptor.counter-style.system.css''] (''meta.descriptor.'' @ ''counter-style'') =
     Inr (ListOnly [[''cyclic''], [''numeric''], t_var example_tables]) \<and>
   get_descriptors (example_tables\<lparr>f_allow_word_completions := {''system''}\<rparr>)
     [''source.css'', ''meta.at-rule.counter-style.block.css'',
      ''meta.descriptor.counter-style.system.css''] ''counter-style'' =
     Inr (ListOnly [[''cyclic''], [''numeric''], t_var example_tables])"
  by (simp add: get_descriptors_def lookup_by_family_def eval_defs)

section \<open>The cascade\<close>

lemma subscript_single: "subscript [x] 0 = Inr x"
  by (simp add: subscript_def)

lemma on_query_completions_no_cursor: "on_query_completions T v prefix [] = Inl IndexError"
  by (simp add: on_query_completions_def subscript_def)

lemma get_functions_total: "\<exists>r. get_functions T scopes = Inr r"
  by (simp add: get_functions_by_family lookup_by_family_total)

lemma get_property_values_total: "\<exists>r. get_property_values T scopes = Inr r"
  by (simp add: get_property_values_by_family lookup_by_family_total)

lemma get_descriptors_total: "\<exists>r. get_descriptors T scopes descriptors_for = Inr r"
  by (simp add: get_descriptors_by_function_set lookup_by_family_total)

lemma handle_completions_inside_at_rules_total:
  "\<exists>r. handle_completions_inside_at_rules T v location = Inr r"
  by (simp add: handle_completions_inside_at_rules_def Let_def get_descriptors_total)

lemma on_query_completions_single:
  "\<not> match_selector v location ''comment.block.css'' \<Longrightarrow>
   on_query_completions T v prefix [location] =
     first_match (cascade T v (location - int (length prefix))) (Inr NoResult)"
  by (simp add: on_query_completions_def subscript_single cascade_def Let_def)

lemma first_match_total:
  "\<forall>b \<in> set branches. \<exists>r. snd b = Inr r \<Longrightarrow> \<exists>r. first_match branches (Inr none) = Inr r"
  by (induction branches) auto

lemma cascade_total: "\<forall>b \<in> set (cascade T v start). \<exists>r. snd b = Inr r"
  by (simp add: cascade_def get_functions_total get_property_values_total
      handle_completions_inside_at_rules_total)

lemma on_query_completions_total:
  assumes "locations \<noteq> []"
  shows "\<exists>r. on_query_completions T v prefix locations = Inr r"
proof (cases "1 < length locations")
  case True
  then show ?thesis by (simp add: on_query_completions_def)
next
  case False
  with assms obtain location where locs: "locations = [location]"
    by (cases locations) auto
  show ?thesis
  proof (cases "match_selector v location ''comment.block.css''")
    case True
    with locs show ?thesis by (simp add: on_query_completions_def subscript_single)
  next
    case False
    with locs show ?thesis
      by (simp add: on_query_completions_single first_match_total cascade_total)
  qed
qed

lemma first_match_at:
  "i < length branches \<Longrightarrow> fst (branches ! i) \<Longrightarrow> \<forall>j < i. \<not> fst (branches ! j) \<Longrightarrow>
   first_match branches none = snd (branches ! i)"
proof (induction branches arbitrary: i)
  case Nil
  then show ?case by simp
next
  case (Cons b branches)
  obtain test handler where b: "b = (test, handler)" by (cases b)
  show ?case
  proof (cases i)
    case 0
    with Cons.prems b show ?thesis by simp
  next
    case (Suc k)
    with Cons.prems have "\<not> fst ((b # branches) ! 0)" by blast
    with b have nt: "\<not> test" by simp
    from Suc Cons.prems have "k < length branches" "fst (branches ! k)" by simp_all
    moreover from Suc Cons.prems have "\<forall>j < k. \<not> fst (branches ! j)" by auto
    ultimately have "first_match branches none = snd (branches ! k)"
      by (rule Cons.IH)
    with b nt Suc show ?thesis by simp
  qed
qed

lemma first_match_none:
  "\<forall>b \<in> set branches. \<not> fst b \<Longrightarrow> first_match branches none = none"
  by (induction branches) auto

lemma length_cascade: "length (cascade T v start) = 6"
  by (simp add: cascade_def)

lemma map_fst_cascade:
  "map fst (cascade T v start) =
     [inside_functions v start, outside_at_rules v start, inside_at_rules v start,
      property_name_scope v start, property_values v start, selectors v start]"
  by (simp add: cascade_def)

text \<open>
  Claim C6. With more than one cursor position the classifier returns the reject
  outcome, the empty list with the flag that suppresses word completions, and the
  outcome is the same for every view: the view is not consulted.
\<close>

theorem multiple_cursors_rejected:
  "1 < length locations \<Longrightarrow>
   on_query_completions T v prefix locations = Inr (ListFlags [] INHIBIT_WORD_COMPLETIONS) \<and>
   on_query_completions T v' prefix locations = on_query_completions T v prefix locations"
  by (simp add: on_query_completions_def)

text \<open>Two cursors, at 3 and at 7, in two different documents.\<close>

theorem multiple_cursors_rejected_witness:
  "1 < length [3, 7 :: int] \<and>
   on_query_completions example_tables (host_view function_in_value) ''col'' [3, 7] =
     Inr (ListFlags [] INHIBIT_WORD_COMPLETIONS) \<and>
   on_query_completions example_tables (host_view plain_text) ''col'' [3, 7] =
     on_query_completions example_tables (host_view function_in_value) ''col'' [3, 7]"
proof -
  have two: "1 < length [3, 7 :: int]" by simp
  show ?thesis
    using two multiple_cursors_rejected [OF two, of example_tables
        "host_view function_in_value" "''col''" "host_view plain_text"]
    by simp
qed

text \<open>
  Claim C10. The classifier reads the prefix through its length only: two prefixes of
  the same length give the same result for the same tables, view and cursor positions.
\<close>

theorem prefix_only_by_length:
  "length prefix = length prefix' \<Longrightarrow>
   on_query_completions T v prefix locations = on_query_completions T v prefix' locations"
proof -
  assume same: "length prefix = length prefix'"
  show ?thesis
    unfolding on_query_completions_def same by (rule refl)
qed

text \<open>The prefixes \<open>col\<close> and \<open>xyz\<close> at position 14 of a property list.\<close>

theorem prefix_only_by_length_witness:
  "length ''col'' = length ''xyz'' \<and>
   on_query_completions example_tables (host_view comment_then_code) ''col'' [14] =
     on_query_completions example_tables (host_view comment_then_code) ''xyz'' [14]"
proof -
  have len: "length ''col'' = length ''xyz''" by simp
  show ?thesis
    using len prefix_only_by_length [OF len, of example_tables
        "host_view comment_then_code" "[14]"]
    by simp
qed

text \<open>
  Claim C2 places the comment test at the start of the prefix. The source tests the
  cursor position \<open>locations[0]\<close> itself, before the start is computed. With the cursor
  at 10 outside a comment and a prefix of two characters that starts at 8 inside one,
  the classifier goes on to the cascade and offers the property names, with word
  completions suppressed.
\<close>

theorem comment_at_start_of_prefix_counterexample:
  "match_selector (host_view comment_then_code) (10 - int (length ''ab'')) ''comment.block.css'' \<and>
   on_query_completions example_tables (host_view comment_then_code) ''ab'' [10] =
     Inr (ListFlags (p_names example_tables) INHIBIT_WORD_COMPLETIONS) \<and>
   on_query_completions example_tables (host_view comment_then_code) ''ab'' [10] \<noteq>
     Inr (ListOnly [])"
  by (simp add: on_query_completions_def subscript_def Let_def branch_defs host_defs
      comment_then_code_def)

text \<open>
  Claim C2, amended. For a single cursor whose own position lies inside a comment
  region, the classifier returns the empty list without the flag, whatever the prefix.
\<close>

theorem comment_at_cursor_gives_empty_list:
  "match_selector v location ''comment.block.css'' \<Longrightarrow>
   on_query_completions T v prefix [location] = Inr (ListOnly [])"
  by (simp add: on_query_completions_def subscript_single)

text \<open>The cursor at position 5, inside the comment.\<close>

theorem comment_at_cursor_gives_empty_list_witness:
  "match_selector (host_view comment_then_code) 5 ''comment.block.css'' \<and>
   on_query_completions example_tables (host_view comment_then_code) ''ab'' [5] =
     Inr (ListOnly [])"
proof -
  have c: "match_selector (host_view comment_then_code) 5 ''comment.block.css''"
    by (simp add: host_defs comment_then_code_def)
  show ?thesis
    using c comment_at_cursor_gives_empty_list [OF c, of example_tables "''ab''"]
    by simp
qed

text \<open>
  Claim C9. With at least one cursor position the classifier returns a result and raises
  nothing, for every view and all tables; when the cursor is outside a comment and none
  of the six scope tests holds at the start of the prefix, the result is \<open>None\<close>. The
  at-rule dispatcher always returns, and the indexing of \<open>get_name\<close> never fails for the
  prefixes of the three lookups. (Without a cursor position \<open>locations[0]\<close> raises, see
  \<open>on_query_completions_no_cursor\<close>.)
\<close>

theorem on_query_completions_never_raises:
  "(locations \<noteq> [] \<longrightarrow> (\<exists>r. on_query_completions T v prefix locations = Inr r)) \<and>
   (\<not> match_selector v location ''comment.block.css'' \<and>
    \<not> inside_functions v (location - int (length prefix)) \<and>
    \<not> outside_at_rules v (location - int (length prefix)) \<and>
    \<not> inside_at_rules v (location - int (length prefix)) \<and>
    \<not> property_name_scope v (location - int (length prefix)) \<and>
    \<not> property_values v (location - int (length prefix)) \<and>
    \<not> selectors v (location - int (length prefix)) \<longrightarrow>
      on_query_completions T v prefix [location] = Inr NoResult) \<and>
   (\<exists>r. handle_completions_inside_at_rules T v location = Inr r) \<and>
   (\<exists>name. get_name scopes ''meta.function.'' = Inr name) \<and>
   (\<exists>name. get_name scopes (''meta.descriptor.'' @ descriptors_for) = Inr name) \<and>
   (\<exists>name. get_name scopes ''meta.property-value-pair.'' = Inr name)"
proof (intro conjI impI)
  assume "locations \<noteq> []"
  then show "\<exists>r. on_query_completions T v prefix locations = Inr r"
    by (rule on_query_completions_total)
next
  assume "\<not> match_selector v location ''comment.block.css'' \<and>
    \<not> inside_functions v (location - int (length prefix)) \<and>
    \<not> outside_at_rules v (location - int (length prefix)) \<and>
    \<not> inside_at_rules v (location - int (length prefix)) \<and>
    \<not> property_name_scope v (location - int (length prefix)) \<and>
    \<not> property_values v (location - int (length prefix)) \<and>
    \<not> selectors v (location - int (length prefix))"
  then show "on_query_completions T v prefix [location] = Inr NoResult"
    by (simp add: on_query_completions_single cascade_def)
next
  show "\<exists>r. handle_completions_inside_at_rules T v location = Inr r"
    by (rule handle_completions_inside_at_rules_total)
  show "\<exists>name. get_name scopes ''meta.function.'' = Inr name"
    by (rule get_name_total [OF dot_in_prefixes(1)])
  show "\<exists>name. get_name scopes (''meta.descriptor.'' @ descriptors_for) = Inr name"
    by (rule get_name_total [OF dot_in_prefixes(3)])
  show "\<exists>name. get_name scopes ''meta.property-value-pair.'' = Inr name"
    by (rule get_name_total [OF dot_in_prefixes(2)])
qed

text \<open>A cursor at position 9 of a plain text document, after the prefix \<open>ab\<close>.\<close>

lemma plain_text_no_branch:
  "\<not> match_selector (host_view plain_text) 9 ''comment.block.css'' \<and>
   \<not> inside_functions (host_view plain_text) (9 - int (length ''ab'')) \<and>
   \<not> outside_at_rules (host_view plain_text) (9 - int (length ''ab'')) \<and>
   \<not> inside_at_rules (host_view plain_text) (9 - int (length ''ab'')) \<and>
   \<not> property_name_scope (host_view plain_text) (9 - int (length ''ab'')) \<and>
   \<not> property_values (host_view plain_text) (9 - int (length ''ab'')) \<and>
   \<not> selectors (host_view plain_text) (9 - int (length ''ab''))"
  by (simp add: branch_defs host_defs plain_text_def)

theorem on_query_completions_never_raises_witness:
  "[9 :: int] \<noteq> [] \<and>
   (\<exists>r. on_query_completions example_tables (host_view plain_text) ''ab'' [9] = Inr r) \<and>
   \<not> match_selector (host_view plain_text) 9 ''comment.block.css'' \<and>
   \<not> inside_functions (host_view plain_text) (9 - int (length ''ab'')) \<and>
   \<not> outside_at_rules (host_view plain_text) (9 - int (length ''ab'')) \<and>
   \<not> inside_at_rules (host_view plain_text) (9 - int (length ''ab'')) \<and>
   \<not> property_name_scope (host_view plain_text) (9 - int (length ''ab'')) \<and>
   \<not> property_values (host_view plain_text) (9 - int (length ''ab'')) \<and>
   \<not> selectors (host_view plain_text) (9 - int (length ''ab'')) \<and>
   on_query_completions example_tables (host_view plain_text) ''ab'' [9] = Inr NoResult"
  using plain_text_no_branch
    on_query_completions_never_raises [of "[9]" example_tables "host_view plain_text" "''ab''" 9]
  by simp

text \<open>
  Claim C8 says that at most one of the six scope tests holds. Inside a function call
  within a property value, \<open>color: rgb(|)\<close>, the test of the function branch and the
  test of the property value branch both hold, and their handlers return different
  lists: which one is offered depends on the order of the tests.
\<close>

theorem branches_overlap_counterexample:
  "\<not> match_selector (host_view function_in_value) 5 ''comment.block.css'' \<and>
   map fst (cascade example_tables (host_view function_in_value) (5 - int (length ''''))) =
     [True, False, False, False, True, False] \<and>
   inside_functions (host_view function_in_value) (5 - int (length '''')) \<and>
   property_values (host_view function_in_value) (5 - int (length '''')) \<and>
   get_functions example_tables (get_current_scopes (host_view function_in_value) 5) =
     Inr (ListFlags [[''0, 0, 0''], t_var example_tables] INHIBIT_WORD_COMPLETIONS) \<and>
   get_property_values example_tables (get_current_scopes (host_view function_in_value) 5) =
     Inr (ListFlags [[''red''], [''blue''], t_var example_tables] INHIBIT_WORD_COMPLETIONS)"
  by (simp add: map_fst_cascade branch_defs host_defs function_in_value_def
      get_functions_def get_property_values_def eval_defs)

text \<open>
  Claim C8, amended. For a single cursor outside a comment the six branches are tried
  in the order function argument, at-rule introducer, inside at-rule, property name,
  property value, selector, and the result is that of the first branch whose scope test
  holds: the handler of branch \<open>i\<close> when its test holds and no earlier test does, and
  \<open>None\<close> when no test holds.
\<close>

theorem first_matching_branch_decides:
  "\<not> match_selector v location ''comment.block.css'' \<longrightarrow>
   on_query_completions T v prefix [location] =
     first_match (cascade T v (location - int (length prefix))) (Inr NoResult) \<and>
   (i < length (cascade T v (location - int (length prefix))) \<and>
    fst (cascade T v (location - int (length prefix)) ! i) \<and>
    (\<forall>j < i. \<not> fst (cascade T v (location - int (length prefix)) ! j)) \<longrightarrow>
      on_query_completions T v prefix [location] =
        snd (cascade T v (location - int (length prefix)) ! i)) \<and>
   ((\<forall>b \<in> set (cascade T v (location - int (length prefix))). \<not> fst b) \<longrightarrow>
      on_query_completions T v prefix [location] = Inr NoResult)"
  by (simp add: on_query_completions_single first_match_at first_match_none)

text \<open>
  At position 14 of the property list, after the prefix \<open>col\<close>, the property name
  branch is the only one whose test holds.
\<close>

lemma property_list_cascade:
  "cascade example_tables (host_view comment_then_code) (14 - int (length ''col'')) =
     [(False, Inr (ListFlags [t_var example_tables] INHIBIT_WORD_COMPLETIONS)),
      (False, Inr (ListFlags (s_at_rules example_tables) INHIBIT_WORD_COMPLETIONS)),
      (False, Inr NoResult),
      (True, Inr (ListFlags (p_names example_tables) INHIBIT_WORD_COMPLETIONS)),
      (False, Inr (ListFlags [t_var example_tables] INHIBIT_WORD_COMPLETIONS)),
      (False, Inr (ListOnly (s_html_tags example_tables)))]"
  by (simp add: cascade_def branch_defs host_defs comment_then_code_def
      get_functions_def get_property_values_def handle_completions_inside_at_rules_def
      should_offer_at_rule_completions_def scopes_that_forbid_nested_at_rules_def
      handle_selector_completions_def eval_defs)

theorem first_matching_branch_decides_witness:
  "\<not> match_selector (host_view comment_then_code) 14 ''comment.block.css'' \<and>
   map fst (cascade example_tables (host_view comment_then_code) (14 - int (length ''col''))) =
     [False, False, False, True, False, False] \<and>
   on_query_completions example_tables (host_view comment_then_code) ''col'' [14] =
     Inr (ListFlags (p_names example_tables) INHIBIT_WORD_COMPLETIONS)"
proof -
  let ?c = "cascade example_tables (host_view comment_then_code) (14 - int (length ''col''))"
  have nc: "\<not> match_selector (host_view comment_then_code) 14 ''comment.block.css''"
    by (simp add: host_defs comment_then_code_def)
  have len: "3 < length ?c"
    by (simp add: length_cascade)
  have third: "fst (?c ! 3)"
    unfolding property_list_cascade by simp
  have earlier: "\<forall>j < 3. \<not> fst (?c ! j)"
    unfolding property_list_cascade by (auto simp: numeral_3_eq_3 less_Suc_eq)
  have res: "snd (?c ! 3) = Inr (ListFlags (p_names example_tables) INHIBIT_WORD_COMPLETIONS)"
    unfolding property_list_cascade by simp
  from first_matching_branch_decides [of "host_view comment_then_code" 14 example_tables
      "''col''" 3] nc len third earlier
  have "on_query_completions example_tables (host_view comment_then_code) ''col'' [14] =
      snd (?c ! 3)"
    by blast
  with nc res show ?thesis
    unfolding property_list_cascade by simp
qed

section \<open>The selector dispatcher\<close>

text \<open>
  On the host for concrete inputs the test of the tag branch,
  \<open>source.css -entity.other.attribute-name.\<close>, holds where a label starts with
  \<open>source.css\<close> and none starts with \<open>entity.other.attribute-name.\<close>.
\<close>

lemma tag_selector_on_host:
  "match_selector (host_view scope_at) location ''source.css -entity.other.attribute-name.'' \<longleftrightarrow>
     has_scope (split_ws (scope_at location)) ''source.css'' \<and>
     \<not> has_scope (split_ws (scope_at location)) ''entity.other.attribute-name.''"
  by (simp add: host_view_def selector_matches_def alternative_matches_def split_ws_def
      isspace_def)

text \<open>
  Claim C7 offers the HTML tags wherever the position is inside a selector and not inside
  an attribute name. The source asks for CSS source as well. At position 5 of a selector
  whose document is not CSS source (the scope stack \<open>source.scss meta.selector.css\<close>),
  with no pseudo-element or pseudo-class introducer before it and no attribute name
  around it, the selector dispatcher returns \<open>None\<close>, and so does the classifier.
\<close>

theorem selector_outside_css_counterexample:
  "selectors (host_view selector_outside_css) 5 \<and>
   \<not> match_selector (host_view selector_outside_css) (5 - 1)
       ''punctuation.definition.entity.pseudo-element.css'' \<and>
   \<not> match_selector (host_view selector_outside_css) (5 - 1)
       ''punctuation.definition.entity.pseudo-class.css'' \<and>
   \<not> has_scope (get_current_scopes (host_view selector_outside_css) 5)
       ''entity.other.attribute-name.'' \<and>
   handle_selector_completions example_tables (host_view selector_outside_css) 5 = NoResult \<and>
   on_query_completions example_tables (host_view selector_outside_css) [] [5] = Inr NoResult"
  by (simp add: on_query_completions_def subscript_def Let_def branch_defs
      handle_selector_completions_def host_defs selector_outside_css_def)

text \<open>
  Claim C7, amended. The selector dispatcher returns, in this order of priority: the
  pseudo-element list with the flag when the character before the position is a
  pseudo-element introducer; else the pseudo-class list with the flag when that
  character is a pseudo-class introducer; else the list of HTML tags without the flag
  when the position matches \<open>source.css -entity.other.attribute-name.\<close> (CSS source, not
  inside an attribute name); else \<open>None\<close>. The classifier returns what the dispatcher
  returns, at the start of the prefix, when the selector test is the first to hold.
\<close>

theorem selector_dispatch_priority:
  "(match_selector v (location - 1) ''punctuation.definition.entity.pseudo-element.css'' \<longrightarrow>
      handle_selector_completions T v location =
        ListFlags (s_pseudo_elements T) INHIBIT_WORD_COMPLETIONS) \<and>
   (\<not> match_selector v (location - 1) ''punctuation.definition.entity.pseudo-element.css'' \<and>
    match_selector v (location - 1) ''punctuation.definition.entity.pseudo-class.css'' \<longrightarrow>
      handle_selector_completions T v location =
        ListFlags (s_pseudo_classes T) INHIBIT_WORD_COMPLETIONS) \<and>
   (\<not> match_selector v (location - 1) ''punctuation.definition.entity.pseudo-element.css'' \<and>
    \<not> match_selector v (location - 1) ''punctuation.definition.entity.pseudo-class.css'' \<and>
    match_selector v location ''source.css -entity.other.attribute-name.'' \<longrightarrow>
      handle_selector_completions T v location = ListOnly (s_html_tags T)) \<and>
   (\<not> match_selector v (location - 1) ''punctuation.definition.entity.pseudo-element.css'' \<and>
    \<not> match_selector v (location - 1) ''punctuation.definition.entity.pseudo-class.css'' \<and>
    \<not> match_selector v location ''source.css -entity.other.attribute-name.'' \<longrightarrow>
      handle_selector_completions T v location = NoResult) \<and>
   (\<not> match_selector v cursor ''comment.block.css'' \<and>
    \<not> inside_functions v (cursor - int (length prefix)) \<and>
    \<not> outside_at_rules v (cursor - int (length prefix)) \<and>
    \<not> inside_at_rules v (cursor - int (length prefix)) \<and>
    \<not> property_name_scope v (cursor - int (length prefix)) \<and>
    \<not> property_values v (cursor - int (length prefix)) \<and>
    selectors v (cursor - int (length prefix)) \<longrightarrow>
      on_query_completions T v prefix [cursor] =
        Inr (handle_selector_completions T v (cursor - int (length prefix))))"
  by (simp add: handle_selector_completions_def on_query_completions_single cascade_def)

text \<open>
  A CSS selector: position 5 follows the second colon of \<open>::\<close>, position 9 follows an
  ordinary character.
\<close>

lemma selector_after_colons_tests:
  "match_selector (host_view selector_after_colons) (5 - 1)
     ''punctuation.definition.entity.pseudo-element.css'' \<and>
   \<not> match_selector (host_view selector_after_colons) (9 - 1)
     ''punctuation.definition.entity.pseudo-element.css'' \<and>
   \<not> match_selector (host_view selector_after_colons) (9 - 1)
     ''punctuation.definition.entity.pseudo-class.css'' \<and>
   match_selector (host_view selector_after_colons) 9 ''source.css -entity.other.attribute-name.''"
  by (simp add: host_defs selector_after_colons_def)

theorem selector_dispatch_priority_witness:
  "match_selector (host_view selector_after_colons) (5 - 1)
     ''punctuation.definition.entity.pseudo-element.css'' \<and>
   handle_selector_completions example_tables (host_view selector_after_colons) 5 =
     ListFlags (s_pseudo_elements example_tables) INHIBIT_WORD_COMPLETIONS \<and>
   \<not> match_selector (host_view selector_after_colons) (9 - 1)
     ''punctuation.definition.entity.pseudo-element.css'' \<and>
   \<not> match_selector (host_view selector_after_colons) (9 - 1)
     ''punctuation.definition.entity.pseudo-class.css'' \<and>
   match_selector (host_view selector_after_colons) 9 ''source.css -entity.other.attribute-name.'' \<and>
   handle_selector_completions example_tables (host_view selector_after_colons) 9 =
     ListOnly (s_html_tags example_tables)"
  using selector_after_colons_tests
    selector_dispatch_priority [of "host_view selector_after_colons" 5 example_tables]
    selector_dispatch_priority [of "host_view selector_after_colons" 9 example_tables]
  by blast

section \<open>The at-rule dispatcher\<close>

text \<open>The host for concrete inputs reads a comma as an alternative.\<close>

lemma split_sep_append:
  "split_sep sep (a @ sep # b) = split_sep sep a @ split_sep sep b"
  by (induction a) (auto split: list.splits simp: split_sep_not_Nil)

lemma alternative_leading_space:
  "alternative_matches labels (CHR '' '' # alt) = alternative_matches labels alt"
  by (simp add: alternative_matches_def split_ws_def isspace_def)

lemma selector_leading_space:
  "selector_matches labels (CHR '' '' # sel) = selector_matches labels sel"
  by (cases "split_sep CHR '','' sel")
    (simp_all add: selector_matches_def split_sep_not_Nil alternative_leading_space)

lemma selector_matches_comma:
  "selector_matches labels (a @ '', '' @ b) =
     (selector_matches labels a \<or> selector_matches labels b)"
proof -
  have "selector_matches labels (a @ CHR '','' # (CHR '' '' # b)) =
      (selector_matches labels a \<or> selector_matches labels (CHR '' '' # b))"
    by (simp add: selector_matches_def split_sep_append)
  then show ?thesis
    by (simp add: selector_leading_space)
qed

lemma comma_or_host_view: "comma_or (host_view scope_at)"
  unfolding comma_or_def host_view_def by (simp only: view.simps selector_matches_comma simp_thms)

lemma media_or_supports:
  assumes "comma_or v"
  shows "match_selector v location
           ''meta.at-rule.media.block.css, meta.at-rule.supports.block.css'' \<longleftrightarrow>
         match_selector v location ''meta.at-rule.media.block.css'' \<or>
         match_selector v location ''meta.at-rule.supports.block.css''"
  using assms [unfolded comma_or_def, rule_format, of location
      "''meta.at-rule.media.block.css''" "''meta.at-rule.supports.block.css''"]
  by simp

lemma forbidding_scopes_split:
  "scopes_that_forbid_nested_at_rules =
     ''meta.property-list.css'' @ '', '' @
     ''meta.at-rule.font-face.block.css'' @ '', '' @
     ''meta.at-rule.keyframes.block.css'' @ '', '' @
     ''meta.at-rule.font-feature-values.block.css'' @ '', '' @
     ''meta.at-rule.viewport.block.css'' @ '', '' @
     ''meta.at-rule.color-profile.block.css'' @ '', '' @
     ''meta.at-rule.counter-style.block.css'' @ '', '' @
     ''meta.at-rule.page.block.css''"
  by (simp add: scopes_that_forbid_nested_at_rules_def)

lemma any_forbidding_scope:
  assumes "comma_or v"
  shows "match_selector v location scopes_that_forbid_nested_at_rules \<longleftrightarrow>
         (\<exists>x \<in> {''meta.property-list.css'', ''meta.at-rule.font-face.block.css'',
                 ''meta.at-rule.keyframes.block.css'',
                 ''meta.at-rule.font-feature-values.block.css'',
                 ''meta.at-rule.viewport.block.css'', ''meta.at-rule.color-profile.block.css'',
                 ''meta.at-rule.counter-style.block.css'', ''meta.at-rule.page.block.css''}.
            match_selector v location x)"
proof -
  have comma: "\<And>a b. match_selector v location (a @ '', '' @ b) =
      (match_selector v location a \<or> match_selector v location b)"
    using assms by (simp add: comma_or_def)
  have "match_selector v location scopes_that_forbid_nested_at_rules \<longleftrightarrow>
      match_selector v location ''meta.property-list.css'' \<or>
      match_selector v location ''meta.at-rule.font-face.block.css'' \<or>
      match_selector v location ''meta.at-rule.keyframes.block.css'' \<or>
      match_selector v location ''meta.at-rule.font-feature-values.block.css'' \<or>
      match_selector v location ''meta.at-rule.viewport.block.css'' \<or>
      match_selector v location ''meta.at-rule.color-profile.block.css'' \<or>
      match_selector v location ''meta.at-rule.counter-style.block.css'' \<or>
      match_selector v location ''meta.at-rule.page.block.css''"
    unfolding forbidding_scopes_split comma by (rule refl)
  then show ?thesis
    by simp
qed

text \<open>
  The descriptor lookup does not read the list of nestable at-rules, and neither does the
  at-rule dispatcher once \<open>should_offer_at_rule_completions\<close> has answered no.
\<close>

lemma get_descriptors_without_nesting:
  "get_descriptors (T\<lparr>s_nestable_at_rules := other\<rparr>) scopes descriptors_for =
     get_descriptors T scopes descriptors_for"
  by (simp add: get_descriptors_by_function_set)

lemma should_offer_at_rule_completions_iff:
  "should_offer_at_rule_completions v location \<longleftrightarrow>
     match_selector v location
       ''meta.at-rule.media.block.css, meta.at-rule.supports.block.css'' \<and>
     \<not> match_selector v location scopes_that_forbid_nested_at_rules"
  by (simp add: should_offer_at_rule_completions_def)

lemma handle_without_nesting:
  "\<not> should_offer_at_rule_completions v location \<Longrightarrow>
   handle_completions_inside_at_rules (T\<lparr>s_nestable_at_rules := other\<rparr>) v location =
     handle_completions_inside_at_rules T v location"
  by (simp add: handle_completions_inside_at_rules_def Let_def
      get_descriptors_without_nesting)

text \<open>
  A rule's property list inside an \<open>@media\<close> block: the block is there, a forbidding
  scope is there, and no later branch of the dispatcher applies.
\<close>

lemma rule_in_media_block_result:
  "match_selector (host_view rule_in_media_block) 9 ''meta.at-rule.media.block.css'' \<and>
   match_selector (host_view rule_in_media_block) 9 ''meta.property-list.css'' \<and>
   handle_completions_inside_at_rules T (host_view rule_in_media_block) 9 = Inr NoResult"
  by (simp add: handle_completions_inside_at_rules_def should_offer_at_rule_completions_def
      scopes_that_forbid_nested_at_rules_def Let_def host_defs rule_in_media_block_def)

text \<open>
  Claim C5. On a host that reads a comma as an alternative,
  \<open>should_offer_at_rule_completions\<close> holds exactly when the position matches the
  \<open>@media\<close> block or the \<open>@supports\<close> block and matches none of the eight forbidding
  scopes. When it holds the at-rule dispatcher returns the list of nestable at-rules with
  the flag. When it does not, the dispatcher falls through to its other branches: its
  result is that of the first of the nine later branches whose test holds, in the order
  of the source (keyframes, font-face, font-feature-values, viewport, page margin boxes,
  page selectors, charset, counter-style, color-profile), and \<open>None\<close> when none holds;
  it no longer depends on the list of nestable at-rules; and it can be \<open>None\<close>, as in a
  position that matches the \<open>@media\<close> block and the property list.
\<close>

theorem nested_at_rules_offered:
  "(comma_or v \<longrightarrow>
      (should_offer_at_rule_completions v location \<longleftrightarrow>
         (match_selector v location ''meta.at-rule.media.block.css'' \<or>
          match_selector v location ''meta.at-rule.supports.block.css'') \<and>
         \<not> (\<exists>x \<in> {''meta.property-list.css'', ''meta.at-rule.font-face.block.css'',
                    ''meta.at-rule.keyframes.block.css'',
                    ''meta.at-rule.font-feature-values.block.css'',
                    ''meta.at-rule.viewport.block.css'',
                    ''meta.at-rule.color-profile.block.css'',
                    ''meta.at-rule.counter-style.block.css'',
                    ''meta.at-rule.page.block.css''}.
               match_selector v location x))) \<and>
   (should_offer_at_rule_completions v location \<longrightarrow>
      handle_completions_inside_at_rules T v location =
        Inr (ListFlags (s_nestable_at_rules T) INHIBIT_WORD_COMPLETIONS)) \<and>
   (\<not> should_offer_at_rule_completions v location \<longrightarrow>
      handle_completions_inside_at_rules (T\<lparr>s_nestable_at_rules := other\<rparr>) v location =
        handle_completions_inside_at_rules T v location) \<and>
   (\<exists>v' location'.
      comma_or v' \<and>
      match_selector v' location' ''meta.at-rule.media.block.css'' \<and>
      match_selector v' location' ''meta.property-list.css'' \<and>
      handle_completions_inside_at_rules T v' location' = Inr NoResult) \<and>
   (\<not> should_offer_at_rule_completions v location \<longrightarrow>
      handle_completions_inside_at_rules T v location =
        first_match
          [(match_selector v location
              ''meta.at-rule.keyframes.block.css -meta.keyframes-declaration-list.css'',
            Inr (ListFlags (s_keyframes_selector T) INHIBIT_WORD_COMPLETIONS)),
           (match_selector v location ''meta.at-rule.font-face.block.css'',
            if match_selector v location ''source.css -meta.descriptor.font-face''
            then Inr (ListFlags (d_font_face_descriptors T) INHIBIT_WORD_COMPLETIONS)
            else get_descriptors T (get_current_scopes v location) ''font-face''),
           (match_selector v location ''meta.at-rule.font-feature-values.block.css'',
            if match_selector v location ''-meta.font-feature-type-block.css''
            then Inr (ListFlags (s_font_feature_types T) INHIBIT_WORD_COMPLETIONS)
            else Inr (ListOnly [])),
           (match_selector v location ''meta.at-rule.viewport.block.css'',
            if match_selector v location ''source.css -meta.descriptor.viewport''
            then Inr (ListFlags (d_viewport_descriptors T) INHIBIT_WORD_COMPLETIONS)
            else get_descriptors T (get_current_scopes v location) ''viewport''),
           (match_selector v location
              ''meta.at-rule.page.block.css -meta.page-margin-box.css'',
            Inr (ListFlags (s_page_margin_boxes T) INHIBIT_WORD_COMPLETIONS)),
           (match_selector v location
              ''meta.at-rule.page.css -meta.at-rule.page.block.css'',
            Inr (ListOnly (s_at_page_selectors T))),
           (match_selector v location ''meta.at-rule.charset.css'',
            Inr (ListFlags [charset_item] INHIBIT_WORD_COMPLETIONS)),
           (match_selector v location ''meta.at-rule.counter-style.block.css'',
            if match_selector v location ''-meta.descriptor.counter-style''
            then Inr (ListFlags (d_counter_style_descriptors T) INHIBIT_WORD_COMPLETIONS)
            else get_descriptors T (get_current_scopes v location) ''counter-style''),
           (match_selector v location ''meta.at-rule.color-profile.block.css'',
            if match_selector v location ''-meta.descriptor.color-profile''
            then Inr (ListFlags (d_color_profile_descriptors T) INHIBIT_WORD_COMPLETIONS)
            else get_descriptors T (get_current_scopes v location) ''color-profile'')]
          (Inr NoResult))"
proof (intro conjI impI)
  assume co: "comma_or v"
  show "should_offer_at_rule_completions v location \<longleftrightarrow>
         (match_selector v location ''meta.at-rule.media.block.css'' \<or>
          match_selector v location ''meta.at-rule.supports.block.css'') \<and>
         \<not> (\<exists>x \<in> {''meta.property-list.css'', ''meta.at-rule.font-face.block.css'',
                    ''meta.at-rule.keyframes.block.css'',
                    ''meta.at-rule.font-feature-values.block.css'',
                    ''meta.at-rule.viewport.block.css'',
                    ''meta.at-rule.color-profile.block.css'',
                    ''meta.at-rule.counter-style.block.css'',
                    ''meta.at-rule.page.block.css''}.
               match_selector v location x)"
    by (simp only: should_offer_at_rule_completions_iff media_or_supports [OF co]
        any_forbidding_scope [OF co])
next
  assume "should_offer_at_rule_completions v location"
  then show "handle_completions_inside_at_rules T v location =
        Inr (ListFlags (s_nestable_at_rules T) INHIBIT_WORD_COMPLETIONS)"
    by (simp add: handle_completions_inside_at_rules_def Let_def)
next
  assume "\<not> should_offer_at_rule_completions v location"
  then show "handle_completions_inside_at_rules (T\<lparr>s_nestable_at_rules := other\<rparr>) v location =
        handle_completions_inside_at_rules T v location"
    by (rule handle_without_nesting)
next
  show "\<exists>v' location'.
      comma_or v' \<and>
      match_selector v' location' ''meta.at-rule.media.block.css'' \<and>
      match_selector v' location' ''meta.property-list.css'' \<and>
      handle_completions_inside_at_rules T v' location' = Inr NoResult"
    using comma_or_host_view [of rule_in_media_block] rule_in_media_block_result [of T]
    by blast
next
  assume "\<not> should_offer_at_rule_completions v location"
  then show "handle_completions_inside_at_rules T v location =
        first_match
          [(match_selector v location
              ''meta.at-rule.keyframes.block.css -meta.keyframes-declaration-list.css'',
            Inr (ListFlags (s_keyframes_selector T) INHIBIT_WORD_COMPLETIONS)),
           (match_selector v location ''meta.at-rule.font-face.block.css'',
            if match_selector v location ''source.css -meta.descriptor.font-face''
            then Inr (ListFlags (d_font_face_descriptors T) INHIBIT_WORD_COMPLETIONS)
            else get_descriptors T (get_current_scopes v location) ''font-face''),
           (match_selector v location ''meta.at-rule.font-feature-values.block.css'',
            if match_selector v location ''-meta.font-feature-type-block.css''
            then Inr (ListFlags (s_font_feature_types T) INHIBIT_WORD_COMPLETIONS)
            else Inr (ListOnly [])),
           (match_selector v location ''meta.at-rule.viewport.block.css'',
            if match_selector v location ''source.css -meta.descriptor.viewport''
            then Inr (ListFlags (d_viewport_descriptors T) INHIBIT_WORD_COMPLETIONS)
            else get_descriptors T (get_current_scopes v location) ''viewport''),
           (match_selector v location
              ''meta.at-rule.page.block.css -meta.page-margin-box.css'',
            Inr (ListFlags (s_page_margin_boxes T) INHIBIT_WORD_COMPLETIONS)),
           (match_selector v location
              ''meta.at-rule.page.css -meta.at-rule.page.block.css'',
            Inr (ListOnly (s_at_page_selectors T))),
           (match_selector v location ''meta.at-rule.charset.css'',
            Inr (ListFlags [charset_item] INHIBIT_WORD_COMPLETIONS)),
           (match_selector v location ''meta.at-rule.counter-style.block.css'',
            if match_selector v location ''-meta.descriptor.counter-style''
            then Inr (ListFlags (d_counter_style_descriptors T) INHIBIT_WORD_COMPLETIONS)
            else get_descriptors T (get_current_scopes v location) ''counter-style''),
           (match_selector v location ''meta.at-rule.color-profile.block.css'',
            if match_selector v location ''-meta.descriptor.color-profile''
            then Inr (ListFlags (d_color_profile_descriptors T) INHIBIT_WORD_COMPLETIONS)
            else get_descriptors T (get_current_scopes v location) ''color-profile'')]
          (Inr NoResult)"
    by (simp add: handle_completions_inside_at_rules_def Let_def)
qed


text \<open>
  Position 9 in the body of an \<open>@media\<close> block, where the nestable at-rules are offered;
  in a rule's property list inside one, where they are not and no later branch applies;
  and in an \<open>@keyframes\<close> block inside an \<open>@supports\<close> block, where the dispatcher
  falls through to the keyframes branch.
\<close>

lemma media_block_tests:
  "match_selector (host_view media_block) 9 ''meta.at-rule.media.block.css'' \<and>
   \<not> (\<exists>x \<in> {''meta.property-list.css'', ''meta.at-rule.font-face.block.css'',
              ''meta.at-rule.keyframes.block.css'',
              ''meta.at-rule.font-feature-values.block.css'',
              ''meta.at-rule.viewport.block.css'',
              ''meta.at-rule.color-profile.block.css'',
              ''meta.at-rule.counter-style.block.css'',
              ''meta.at-rule.page.block.css''}.
         match_selector (host_view media_block) 9 x)"
  by (simp add: host_defs media_block_def)

lemma rule_in_media_block_tests:
  "\<exists>x \<in> {''meta.property-list.css'', ''meta.at-rule.font-face.block.css'',
          ''meta.at-rule.keyframes.block.css'',
          ''meta.at-rule.font-feature-values.block.css'',
          ''meta.at-rule.viewport.block.css'',
          ''meta.at-rule.color-profile.block.css'',
          ''meta.at-rule.counter-style.block.css'',
          ''meta.at-rule.page.block.css''}.
     match_selector (host_view rule_in_media_block) 9 x"
  by (simp add: host_defs rule_in_media_block_def)

lemma keyframes_in_supports_tests:
  "match_selector (host_view keyframes_in_supports) 9 ''meta.at-rule.supports.block.css'' \<and>
   match_selector (host_view keyframes_in_supports) 9
     ''meta.at-rule.keyframes.block.css -meta.keyframes-declaration-list.css'' \<and>
   (\<exists>x \<in> {''meta.property-list.css'', ''meta.at-rule.font-face.block.css'',
           ''meta.at-rule.keyframes.block.css'',
           ''meta.at-rule.font-feature-values.block.css'',
           ''meta.at-rule.viewport.block.css'',
           ''meta.at-rule.color-profile.block.css'',
           ''meta.at-rule.counter-style.block.css'',
           ''meta.at-rule.page.block.css''}.
      match_selector (host_view keyframes_in_supports) 9 x)"
  by (simp add: host_defs keyframes_in_supports_def)

theorem nested_at_rules_offered_witness:
  "comma_or (host_view media_block) \<and>
   match_selector (host_view media_block) 9 ''meta.at-rule.media.block.css'' \<and>
   should_offer_at_rule_completions (host_view media_block) 9 \<and>
   handle_completions_inside_at_rules example_tables (host_view media_block) 9 =
     Inr (ListFlags (s_nestable_at_rules example_tables) INHIBIT_WORD_COMPLETIONS) \<and>
   comma_or (host_view rule_in_media_block) \<and>
   match_selector (host_view rule_in_media_block) 9 ''meta.at-rule.media.block.css'' \<and>
   match_selector (host_view rule_in_media_block) 9 ''meta.property-list.css'' \<and>
   \<not> should_offer_at_rule_completions (host_view rule_in_media_block) 9 \<and>
   handle_completions_inside_at_rules (example_tables\<lparr>s_nestable_at_rules := []\<rparr>)
       (host_view rule_in_media_block) 9 =
     handle_completions_inside_at_rules example_tables (host_view rule_in_media_block) 9 \<and>
   comma_or (host_view keyframes_in_supports) \<and>
   match_selector (host_view keyframes_in_supports) 9 ''meta.at-rule.supports.block.css'' \<and>
   match_selector (host_view keyframes_in_supports) 9
     ''meta.at-rule.keyframes.block.css -meta.keyframes-declaration-list.css'' \<and>
   \<not> should_offer_at_rule_completions (host_view keyframes_in_supports) 9 \<and>
   handle_completions_inside_at_rules example_tables (host_view keyframes_in_supports) 9 =
     Inr (ListFlags (s_keyframes_selector example_tables) INHIBIT_WORD_COMPLETIONS)"
proof -
  note inside = nested_at_rules_offered [of "host_view media_block" 9 example_tables "[]"]
  note nested = nested_at_rules_offered [of "host_view rule_in_media_block" 9 example_tables "[]"]
  note frames = nested_at_rules_offered [of "host_view keyframes_in_supports" 9 example_tables "[]"]
  note in_rule = rule_in_media_block_result [of example_tables]
  have co: "comma_or (host_view media_block)"
    by (rule comma_or_host_view)
  have co': "comma_or (host_view rule_in_media_block)"
    by (rule comma_or_host_view)
  have co'': "comma_or (host_view keyframes_in_supports)"
    by (rule comma_or_host_view)
  note media = media_block_tests [THEN conjunct1]
  have offer: "should_offer_at_rule_completions (host_view media_block) 9"
    by (rule iffD2 [OF inside [THEN conjunct1, THEN mp, OF co]
          conjI [OF disjI1 [OF media] media_block_tests [THEN conjunct2]]])
  note list = inside [THEN conjunct2, THEN conjunct1, THEN mp, OF offer]
  have no_offer: "\<not> should_offer_at_rule_completions (host_view rule_in_media_block) 9"
  proof
    assume "should_offer_at_rule_completions (host_view rule_in_media_block) 9"
    from iffD1 [OF nested [THEN conjunct1, THEN mp, OF co'] this, THEN conjunct2]
      rule_in_media_block_tests
    show False by (rule notE)
  qed
  note same = nested [THEN conjunct2, THEN conjunct2, THEN conjunct1, THEN mp, OF no_offer]
  note supports = keyframes_in_supports_tests [THEN conjunct1]
  note selector = keyframes_in_supports_tests [THEN conjunct2, THEN conjunct1]
  have no_offer': "\<not> should_offer_at_rule_completions (host_view keyframes_in_supports) 9"
  proof
    assume "should_offer_at_rule_completions (host_view keyframes_in_supports) 9"
    from iffD1 [OF frames [THEN conjunct1, THEN mp, OF co''] this, THEN conjunct2]
      keyframes_in_supports_tests [THEN conjunct2, THEN conjunct2]
    show False by (rule notE)
  qed
  note later = frames [THEN conjunct2, THEN conjunct2, THEN conjunct2, THEN conjunct2,
      THEN mp, OF no_offer']
  have keyframes: "handle_completions_inside_at_rules example_tables
      (host_view keyframes_in_supports) 9 =
      Inr (ListFlags (s_keyframes_selector example_tables) INHIBIT_WORD_COMPLETIONS)"
    unfolding later using selector by (simp only: first_match.simps if_True)
  show ?thesis
    by (intro conjI)
      (rule co co' co'' media offer list no_offer same in_rule [THEN conjunct1]
        in_rule [THEN conjunct2, THEN conjunct1] supports selector no_offer' keyframes)+
qed

end
